theory Spec2Isabelle
  imports Main
begin

section \<open>Error traps of the REST API (error_handlers.py)\<close>

text \<open>
  The module defines a base class \<^verbatim>\<open>_ErrorTrap\<close> with two class attributes,
  \<^verbatim>\<open>trigger\<close> and \<^verbatim>\<open>error\<close>, and one class method \<^verbatim>\<open>check\<close>; ten subclasses
  override the two attributes and define no method. A class is modelled by the record of
  its two attributes, and \<^verbatim>\<open>check\<close> by a function from the class and the status to the
  exception raised or to the normal return.
\<close>

subsection \<open>Exceptions\<close>

text \<open>
  The error classes the traps name, \<^verbatim>\<open>errors.StatusResponseMissing\<close> and so on, in the
  order in which the module first uses them. The prefix stands for the module name
  \<^verbatim>\<open>errors.\<close>, and keeps the error \<^verbatim>\<open>StatusResponseMissing\<close> apart from the trap
  class of the same name.
\<close>

datatype api_error =
    errors_StatusResponseMissing
  | errors_SubmittedBatchesInvalid
  | errors_BatchQueueFull
  | errors_InvalidStateAddress
  | errors_BlockNotFound
  | errors_BatchNotFound
  | errors_TransactionNotFound
  | errors_ReceiptNotFound
  | errors_StateNotFound

text \<open>
  What a call of \<^verbatim>\<open>check\<close> can raise: the \<^verbatim>\<open>AssertionError\<close> of a failed
  \<^verbatim>\<open>assert\<close>, with its message, or an instance \<^verbatim>\<open>cls.error()\<close> of the error class.
\<close>

datatype exn =
    AssertionError string
  | ApiError api_error

subsection \<open>The protobuf status enumerations\<close>

text \<open>
  Modelled from the spec: the status enumerations of the response messages. The generated
  modules \<^verbatim>\<open>client_*_pb2\<close> are not among the sources, so the integer behind each member
  is a parameter \<open>pb\<close> of everything below: \<open>pb r m\<close> is the value of
  \<^verbatim>\<open>r.m\<close>, such as \<^verbatim>\<open>ClientStateGetResponse.NO_RESOURCE\<close>. The response types and
  the members \<^verbatim>\<open>NO_RESOURCE\<close>, \<^verbatim>\<open>INVALID_BATCH\<close>, \<^verbatim>\<open>QUEUE_FULL\<close> and
  \<^verbatim>\<open>INVALID_ADDRESS\<close> are the ones the module reads; \<^verbatim>\<open>OK\<close> is the success status the
  specification names. The specification describes a status code as an integer-backed
  enumerated value defined per response type.
\<close>

datatype response_type =
    ClientBatchStatusResponse
  | ClientBatchSubmitResponse
  | ClientStateGetResponse
  | ClientStateListResponse
  | ClientBlockGetResponse
  | ClientBatchGetResponse
  | ClientTransactionGetResponse
  | ClientReceiptGetResponse

datatype status_name = OK | NO_RESOURCE | INVALID_BATCH | QUEUE_FULL | INVALID_ADDRESS

type_synonym pb2 = "response_type \<Rightarrow> status_name \<Rightarrow> int"

text \<open>
  One assignment of integers to the members, the same in every enumeration, at which the
  theorems below are evaluated.
\<close>

definition example_pb2 :: pb2 where
  "example_pb2 r m =
     (case m of OK \<Rightarrow> 1 | NO_RESOURCE \<Rightarrow> 5 | INVALID_BATCH \<Rightarrow> 3
      | QUEUE_FULL \<Rightarrow> 4 | INVALID_ADDRESS \<Rightarrow> 6)"

subsection \<open>The trap classes\<close>

text \<open>
  A trap class: its two class attributes. \<open>None\<close> is Python's \<^verbatim>\<open>None\<close>, the value
  both attributes have in the base class.
\<close>

record error_trap =
  trigger :: "int option"
  error :: "api_error option"

text \<open>The base class \<^verbatim>\<open>_ErrorTrap\<close>: \<^verbatim>\<open>trigger = None\<close>, \<^verbatim>\<open>error = None\<close>.\<close>

definition ErrorTrap :: error_trap where
  "ErrorTrap = \<lparr>trigger = None, error = None\<rparr>"

text \<open>
  A class statement \<^verbatim>\<open>class X(_ErrorTrap): trigger = t; error = e\<close>. It binds the two
  attributes and nothing else: the module has no metaclass, no \<^verbatim>\<open>__init_subclass__\<close> and
  no statement at module level that inspects a class, so the statement raises nothing.
  An attribute the body leaves out is inherited from \<^verbatim>\<open>_ErrorTrap\<close>, where it is
  \<^verbatim>\<open>None\<close>.
\<close>

definition define_trap :: "int option \<Rightarrow> api_error option \<Rightarrow> exn + error_trap" where
  "define_trap t e = Inr \<lparr>trigger = t, error = e\<rparr>"

text \<open>The ten subclasses, in the order of the module.\<close>

definition StatusResponseMissing :: "pb2 \<Rightarrow> error_trap" where
  "StatusResponseMissing pb =
     \<lparr>trigger = Some (pb ClientBatchStatusResponse NO_RESOURCE),
      error = Some errors_StatusResponseMissing\<rparr>"

definition BatchInvalidTrap :: "pb2 \<Rightarrow> error_trap" where
  "BatchInvalidTrap pb =
     \<lparr>trigger = Some (pb ClientBatchSubmitResponse INVALID_BATCH),
      error = Some errors_SubmittedBatchesInvalid\<rparr>"

definition BatchQueueFullTrap :: "pb2 \<Rightarrow> error_trap" where
  "BatchQueueFullTrap pb =
     \<lparr>trigger = Some (pb ClientBatchSubmitResponse QUEUE_FULL),
      error = Some errors_BatchQueueFull\<rparr>"

definition InvalidAddressTrap :: "pb2 \<Rightarrow> error_trap" where
  "InvalidAddressTrap pb =
     \<lparr>trigger = Some (pb ClientStateGetResponse INVALID_ADDRESS),
      error = Some errors_InvalidStateAddress\<rparr>"

definition BlockNotFoundTrap :: "pb2 \<Rightarrow> error_trap" where
  "BlockNotFoundTrap pb =
     \<lparr>trigger = Some (pb ClientBlockGetResponse NO_RESOURCE),
      error = Some errors_BlockNotFound\<rparr>"

definition BatchNotFoundTrap :: "pb2 \<Rightarrow> error_trap" where
  "BatchNotFoundTrap pb =
     \<lparr>trigger = Some (pb ClientBatchGetResponse NO_RESOURCE),
      error = Some errors_BatchNotFound\<rparr>"

definition TransactionNotFoundTrap :: "pb2 \<Rightarrow> error_trap" where
  "TransactionNotFoundTrap pb =
     \<lparr>trigger = Some (pb ClientTransactionGetResponse NO_RESOURCE),
      error = Some errors_TransactionNotFound\<rparr>"

definition ReceiptNotFoundTrap :: "pb2 \<Rightarrow> error_trap" where
  "ReceiptNotFoundTrap pb =
     \<lparr>trigger = Some (pb ClientReceiptGetResponse NO_RESOURCE),
      error = Some errors_ReceiptNotFound\<rparr>"

definition StateNotFoundTrap :: "pb2 \<Rightarrow> error_trap" where
  "StateNotFoundTrap pb =
     \<lparr>trigger = Some (pb ClientStateGetResponse NO_RESOURCE),
      error = Some errors_StateNotFound\<rparr>"

definition InvalidAddressListTrap :: "pb2 \<Rightarrow> error_trap" where
  "InvalidAddressListTrap pb =
     \<lparr>trigger = Some (pb ClientStateListResponse INVALID_ADDRESS),
      error = Some errors_InvalidStateAddress\<rparr>"

subsection \<open>The class method check\<close>

text \<open>
  \<^verbatim>\<open>check(cls, status)\<close>: the two \<^verbatim>\<open>assert\<close> statements in their order, each with its
  message, then the comparison \<^verbatim>\<open>status == cls.trigger\<close> and the \<^verbatim>\<open>raise\<close>. The
  method falls off its end when the comparison fails: \<open>Inr ()\<close>. The status is an
  integer, as a protobuf enum value is in Python, so \<^verbatim>\<open>==\<close> is equality of integers.
\<close>

definition check :: "error_trap \<Rightarrow> int \<Rightarrow> exn + unit" where
  "check cls status =
     (case trigger cls of
        None \<Rightarrow> Inl (AssertionError ''Invalid ErrorTrap, trigger not set'')
      | Some t \<Rightarrow>
          (case error cls of
             None \<Rightarrow> Inl (AssertionError ''Invalid ErrorTrap, error not set'')
           | Some e \<Rightarrow> if status = t then Inl (ApiError e) else Inr ()))"

subsection \<open>The method, statement by statement, in a program state\<close>

text \<open>
  The function \<open>check\<close> gives the outcome of a call. To say what a call does to the data
  of the program, the body of the method is translated once more, one statement after the
  other, as a computation over an explicit state: a computation takes the state and gives
  its result, or the exception it raises, together with the state it leaves.

  The state holds what a call can reach: the class objects, by class, each with its two
  attributes, and the status field of the response the caller holds.
\<close>

record 'c py_state =
  classes :: "'c \<Rightarrow> error_trap"
  response_status :: int

text \<open>
  What a computation can raise: an exception of \<open>check\<close>, or the \<^verbatim>\<open>TypeError\<close> of
  calling \<^verbatim>\<open>None\<close>, which the call \<^verbatim>\<open>cls.error()\<close> raises when the attribute is unset.
\<close>

datatype py_exc = Exc exn | TypeError

type_synonym ('c, 'a) py = "'c py_state \<Rightarrow> (py_exc + 'a) \<times> 'c py_state"

definition py_return :: "'a \<Rightarrow> ('c, 'a) py" where
  "py_return x \<sigma> = (Inr x, \<sigma>)"

definition py_raise :: "py_exc \<Rightarrow> ('c, 'a) py" where
  "py_raise x \<sigma> = (Inl x, \<sigma>)"

text \<open>
  One statement after another: an exception ends the sequence in the state reached, and
  otherwise the next statement runs in the state the first one left.
\<close>

definition py_bind :: "('c, 'a) py \<Rightarrow> ('a \<Rightarrow> ('c, 'b) py) \<Rightarrow> ('c, 'b) py" where
  "py_bind m f \<sigma> = (case m \<sigma> of (Inl x, \<sigma>') \<Rightarrow> (Inl x, \<sigma>') | (Inr v, \<sigma>') \<Rightarrow> f v \<sigma>')"

text \<open>The attribute reads \<^verbatim>\<open>cls.trigger\<close> and \<^verbatim>\<open>cls.error\<close>.\<close>

definition getattr_trigger :: "'c \<Rightarrow> ('c, int option) py" where
  "getattr_trigger cls \<sigma> = (Inr (trigger (classes \<sigma> cls)), \<sigma>)"

definition getattr_error :: "'c \<Rightarrow> ('c, api_error option) py" where
  "getattr_error cls \<sigma> = (Inr (error (classes \<sigma> cls)), \<sigma>)"

text \<open>
  An attribute write \<^verbatim>\<open>cls.trigger = v\<close>. The module has no statement of this form; the
  definition shows that the state records a write when there is one.
\<close>

definition setattr_trigger :: "'c \<Rightarrow> int option \<Rightarrow> ('c, unit) py" where
  "setattr_trigger cls v \<sigma> =
     (Inr (), \<sigma>\<lparr>classes := (classes \<sigma>)(cls := (classes \<sigma> cls)\<lparr>trigger := v\<rparr>)\<rparr>)"

text \<open>The statement \<^verbatim>\<open>assert b, msg\<close>.\<close>

definition py_assert :: "bool \<Rightarrow> string \<Rightarrow> ('c, unit) py" where
  "py_assert b msg = (if b then py_return () else py_raise (Exc (AssertionError msg)))"

text \<open>
  Modelled from the spec: the call \<^verbatim>\<open>cls.error()\<close> of an error class. The error classes
  are defined in the module \<^verbatim>\<open>exceptions\<close>, which is not among the sources; the call
  gives the instance to raise and, as the specification says of a rule (no side effects
  beyond signalling), changes nothing. Calling \<^verbatim>\<open>None\<close> raises \<^verbatim>\<open>TypeError\<close>.
\<close>

definition py_call :: "api_error option \<Rightarrow> ('c, exn) py" where
  "py_call c = (case c of None \<Rightarrow> py_raise TypeError | Some e \<Rightarrow> py_return (ApiError e))"

text \<open>
  The body of \<^verbatim>\<open>check(cls, status)\<close>, lines 59 to 65: each \<^verbatim>\<open>assert\<close> reads its
  attribute and tests it; the comparison reads \<^verbatim>\<open>cls.trigger\<close> again; the \<^verbatim>\<open>raise\<close>
  reads \<^verbatim>\<open>cls.error\<close> again, calls it and raises the instance. Without a match the
  method returns.
\<close>

definition check_m :: "'c \<Rightarrow> int \<Rightarrow> ('c, unit) py" where
  "check_m cls status =
     py_bind (getattr_trigger cls) (\<lambda>t.
     py_bind (py_assert (t \<noteq> None) ''Invalid ErrorTrap, trigger not set'') (\<lambda>_.
     py_bind (getattr_error cls) (\<lambda>e.
     py_bind (py_assert (e \<noteq> None) ''Invalid ErrorTrap, error not set'') (\<lambda>_.
     py_bind (getattr_trigger cls) (\<lambda>t'.
       if Some status = t'
       then py_bind (getattr_error cls) (\<lambda>e'.
            py_bind (py_call e') (\<lambda>x. py_raise (Exc x)))
       else py_return ())))))"



subsection \<open>Rule sets\<close>

text \<open>
  Modelled from the spec: the rule set of a response type. The route handlers that pass
  lists of traps to the classifier are not among the sources; the rule set of a response
  type holds the traps the catalogue lists for it, which are the classes of the module
  whose trigger is read from that response's enumeration, in the order of the module.
\<close>

definition rule_set :: "pb2 \<Rightarrow> response_type \<Rightarrow> error_trap list" where
  "rule_set pb r =
     (case r of
        ClientBatchStatusResponse \<Rightarrow> [StatusResponseMissing pb]
      | ClientBatchSubmitResponse \<Rightarrow> [BatchInvalidTrap pb, BatchQueueFullTrap pb]
      | ClientStateGetResponse \<Rightarrow> [InvalidAddressTrap pb, StateNotFoundTrap pb]
      | ClientStateListResponse \<Rightarrow> [InvalidAddressListTrap pb]
      | ClientBlockGetResponse \<Rightarrow> [BlockNotFoundTrap pb]
      | ClientBatchGetResponse \<Rightarrow> [BatchNotFoundTrap pb]
      | ClientTransactionGetResponse \<Rightarrow> [TransactionNotFoundTrap pb]
      | ClientReceiptGetResponse \<Rightarrow> [ReceiptNotFoundTrap pb])"

section \<open>Properties\<close>

subsection \<open>Helper facts\<close>

lemmas trap_defs =
  StatusResponseMissing_def BatchInvalidTrap_def BatchQueueFullTrap_def
  InvalidAddressTrap_def BlockNotFoundTrap_def BatchNotFoundTrap_def
  TransactionNotFoundTrap_def ReceiptNotFoundTrap_def StateNotFoundTrap_def
  InvalidAddressListTrap_def

lemma check_set:
  "trigger cls = Some t \<Longrightarrow> error cls = Some e \<Longrightarrow>
     check cls status = (if status = t then Inl (ApiError e) else Inr ())"
  by (simp add: check_def)

lemma check_trigger_unset:
  "trigger cls = None \<Longrightarrow>
     check cls status = Inl (AssertionError ''Invalid ErrorTrap, trigger not set'')"
  by (simp add: check_def)

lemma check_error_unset:
  "trigger cls = Some t \<Longrightarrow> error cls = None \<Longrightarrow>
     check cls status = Inl (AssertionError ''Invalid ErrorTrap, error not set'')"
  by (simp add: check_def)

lemma rule_set_valid:
  "cls \<in> set (rule_set pb r) \<Longrightarrow> \<exists>t e. trigger cls = Some t \<and> error cls = Some e"
  by (cases r) (auto simp: rule_set_def trap_defs)

lemmas py_defs =
  py_return_def py_raise_def py_bind_def getattr_trigger_def getattr_error_def
  py_assert_def py_call_def



text \<open>
  The state does record a write: after \<^verbatim>\<open>cls.trigger = v\<close> the class has the new
  trigger, so a body with such a statement leaves another state than it found whenever
  the value is new.
\<close>

lemma setattr_trigger_written:
  "trigger (classes (snd (setattr_trigger cls v \<sigma>)) cls) = v"
  by (simp add: setattr_trigger_def)

lemma setattr_trigger_changes_state:
  "trigger (classes \<sigma> cls) \<noteq> v \<Longrightarrow> snd (setattr_trigger cls v \<sigma>) \<noteq> \<sigma>"
  using setattr_trigger_written [of cls v \<sigma>] by auto

subsection \<open>The rule catalogue\<close>

text \<open>
  C1. For every pair of the rule catalogue, the trap's check called with the triggering
  status raises the listed error: the batch-status trap with NO_RESOURCE raises
  StatusResponseMissing; the batch-submit traps raise SubmittedBatchesInvalid with
  INVALID_BATCH and BatchQueueFull with QUEUE_FULL; the state-get traps raise
  InvalidStateAddress with INVALID_ADDRESS and StateNotFound with NO_RESOURCE; the
  state-list trap raises InvalidStateAddress with INVALID_ADDRESS; the block-get,
  batch-get, transaction-get and receipt-get traps raise BlockNotFound, BatchNotFound,
  TransactionNotFound and ReceiptNotFound with NO_RESOURCE. This holds whatever integers
  the enumerations assign to their members.
\<close>

theorem catalogue_raises:
  "check (StatusResponseMissing pb) (pb ClientBatchStatusResponse NO_RESOURCE)
     = Inl (ApiError errors_StatusResponseMissing)
   \<and> check (BatchInvalidTrap pb) (pb ClientBatchSubmitResponse INVALID_BATCH)
     = Inl (ApiError errors_SubmittedBatchesInvalid)
   \<and> check (BatchQueueFullTrap pb) (pb ClientBatchSubmitResponse QUEUE_FULL)
     = Inl (ApiError errors_BatchQueueFull)
   \<and> check (InvalidAddressTrap pb) (pb ClientStateGetResponse INVALID_ADDRESS)
     = Inl (ApiError errors_InvalidStateAddress)
   \<and> check (StateNotFoundTrap pb) (pb ClientStateGetResponse NO_RESOURCE)
     = Inl (ApiError errors_StateNotFound)
   \<and> check (InvalidAddressListTrap pb) (pb ClientStateListResponse INVALID_ADDRESS)
     = Inl (ApiError errors_InvalidStateAddress)
   \<and> check (BlockNotFoundTrap pb) (pb ClientBlockGetResponse NO_RESOURCE)
     = Inl (ApiError errors_BlockNotFound)
   \<and> check (BatchNotFoundTrap pb) (pb ClientBatchGetResponse NO_RESOURCE)
     = Inl (ApiError errors_BatchNotFound)
   \<and> check (TransactionNotFoundTrap pb) (pb ClientTransactionGetResponse NO_RESOURCE)
     = Inl (ApiError errors_TransactionNotFound)
   \<and> check (ReceiptNotFoundTrap pb) (pb ClientReceiptGetResponse NO_RESOURCE)
     = Inl (ApiError errors_ReceiptNotFound)"
  by (simp add: check_def trap_defs)

subsection \<open>Evaluating one rule\<close>

text \<open>
  C2. For a trap with both trigger and error set, and any status, check raises the trap's
  own error if and only if the status equals the trigger, and otherwise returns normally.
  What is raised is an instance of exactly that error class: never the assertion error,
  never another error.
\<close>

theorem check_valid_rule:
  assumes "trigger cls = Some t" and "error cls = Some e"
  shows "check cls status = (if status = t then Inl (ApiError e) else Inr ())
         \<and> ((\<exists>x. check cls status = Inl x) = (status = t))
         \<and> (\<forall>x. check cls status = Inl x \<longrightarrow> x = ApiError e)"
proof -
  have eq: "check cls status = (if status = t then Inl (ApiError e) else Inr ())"
    using assms by (rule check_set)
  show ?thesis
    unfolding eq by auto
qed

theorem check_valid_rule_witness:
  "check (BatchQueueFullTrap example_pb2) 4 = Inl (ApiError errors_BatchQueueFull)
   \<and> check (BatchQueueFullTrap example_pb2) 1 = Inr ()"
proof -
  have t: "trigger (BatchQueueFullTrap example_pb2) = Some 4"
    by (simp add: BatchQueueFullTrap_def example_pb2_def)
  have e: "error (BatchQueueFullTrap example_pb2) = Some errors_BatchQueueFull"
    by (simp add: BatchQueueFullTrap_def)
  have raised: "check (BatchQueueFullTrap example_pb2) 4
      = (if (4::int) = 4 then Inl (ApiError errors_BatchQueueFull) else Inr ())"
    using check_valid_rule [OF t e, of 4] by (rule conjunct1)
  have passed: "check (BatchQueueFullTrap example_pb2) 1
      = (if (1::int) = 4 then Inl (ApiError errors_BatchQueueFull) else Inr ())"
    using check_valid_rule [OF t e, of 1] by (rule conjunct1)
  show ?thesis
    unfolding raised passed by simp
qed

text \<open>
  C9. check compares the status with the trigger as integers and does not look at the
  enumeration the status comes from: for a trap with both fields set, check raises the
  trap's error exactly when the integer of the status equals the integer of the trigger,
  also for the value \<open>pb r m\<close> of a member of any response type \<open>r\<close>.
\<close>

theorem check_int_equality:
  assumes "trigger cls = Some t" and "error cls = Some e"
  shows "((check cls status = Inl (ApiError e)) = (status = t))
         \<and> ((check cls (pb r m) = Inl (ApiError e)) = (pb r m = t))"
  using assms by (simp add: check_def)

theorem check_int_equality_witness:
  "example_pb2 ClientBlockGetResponse NO_RESOURCE = 5
   \<and> trigger (StateNotFoundTrap example_pb2) = Some 5
   \<and> check (StateNotFoundTrap example_pb2) (example_pb2 ClientBlockGetResponse NO_RESOURCE)
       = Inl (ApiError errors_StateNotFound)"
proof -
  have t: "trigger (StateNotFoundTrap example_pb2) = Some 5"
    by (simp add: StateNotFoundTrap_def example_pb2_def)
  have e: "error (StateNotFoundTrap example_pb2) = Some errors_StateNotFound"
    by (simp add: StateNotFoundTrap_def)
  have v: "example_pb2 ClientBlockGetResponse NO_RESOURCE = 5"
    by (simp add: example_pb2_def)
  show ?thesis
    using check_int_equality [OF t e, of 5 example_pb2 ClientBlockGetResponse NO_RESOURCE] t v
    by simp
qed

subsection \<open>Traps with a field unset\<close>

text \<open>
  C5. For a trap whose trigger or error is unset, and for every status, check raises the
  assertion error: the one for the trigger when the trigger is unset, otherwise the one
  for the error. The outcome is the same for any two statuses, so no comparison with the
  status takes part in it.
\<close>

theorem check_unset_assertion:
  assumes "trigger cls = None \<or> error cls = None"
  shows "check cls status =
           Inl (AssertionError (if trigger cls = None
                                then ''Invalid ErrorTrap, trigger not set''
                                else ''Invalid ErrorTrap, error not set''))
         \<and> check cls status' = check cls status"
  using assms by (auto simp: check_def split: option.splits)

theorem check_unset_assertion_witness:
  "check \<lparr>trigger = Some 5, error = None\<rparr> 5
     = Inl (AssertionError ''Invalid ErrorTrap, error not set'')
   \<and> check \<lparr>trigger = Some 5, error = None\<rparr> 7 = check \<lparr>trigger = Some 5, error = None\<rparr> 5"
proof -
  have h: "trigger \<lparr>trigger = Some (5::int), error = None\<rparr> = None
           \<or> error \<lparr>trigger = Some (5::int), error = None\<rparr> = None"
    by simp
  show ?thesis
    using check_unset_assertion [OF h, of 5 7] by simp
qed

text \<open>
  C10. The base class, whose trigger and error are both unset, cannot be used: for every
  status its check raises the assertion error of the first assert, and so neither returns
  normally nor raises an error of the catalogue.
\<close>

theorem base_trap_unusable:
  "check ErrorTrap status = Inl (AssertionError ''Invalid ErrorTrap, trigger not set'')
   \<and> check ErrorTrap status \<noteq> Inr ()
   \<and> check ErrorTrap status \<noteq> Inl (ApiError e)"
  by (simp add: check_def ErrorTrap_def)

text \<open>
  C3, as the specification states it: a trap registered without both fields set is found
  at registration, when the process starts, and never first at a request. The module does
  otherwise: the class statement of the base class itself, with both fields unset, raises
  nothing, and the fault shows at the call of check.
\<close>

theorem registration_accepts_unset_trap:
  "define_trap None None = Inr ErrorTrap
   \<and> check ErrorTrap 0 = Inl (AssertionError ''Invalid ErrorTrap, trigger not set'')"
  by (simp add: define_trap_def ErrorTrap_def check_def)

text \<open>
  C3, amended. A trap defined without its trigger or without its error is accepted by
  the class statement, which raises nothing; the missing field is reported by check, at
  every call and for every status, as an assertion error.
\<close>

theorem missing_field_found_at_check:
  assumes "t = None \<or> e = None"
  shows "define_trap t e = Inr \<lparr>trigger = t, error = e\<rparr>
         \<and> (\<exists>msg. check \<lparr>trigger = t, error = e\<rparr> status = Inl (AssertionError msg))"
  using assms by (auto simp: define_trap_def check_def split: option.splits)

theorem missing_field_found_at_check_witness:
  "define_trap (Some 3) None = Inr \<lparr>trigger = Some 3, error = None\<rparr>
   \<and> (\<exists>msg. check \<lparr>trigger = Some 3, error = None\<rparr> 3 = Inl (AssertionError msg))"
proof -
  have h: "Some (3::int) = None \<or> (None :: api_error option) = None"
    by simp
  show ?thesis
    using missing_field_found_at_check [OF h, of 3] by simp
qed

subsection \<open>Rule sets\<close>

text \<open>
  C4. For a status that is not the trigger of any rule in the rule set of a response
  type, such as the success status, the check of every rule of that rule set returns
  normally and raises nothing.
\<close>

theorem unlisted_status_returns_normally:
  assumes "Some status \<notin> trigger ` set (rule_set pb r)"
  shows "\<forall>cls \<in> set (rule_set pb r). check cls status = Inr ()"
proof
  fix cls
  assume mem: "cls \<in> set (rule_set pb r)"
  then obtain t e where te: "trigger cls = Some t" "error cls = Some e"
    using rule_set_valid by blast
  from mem assms have "trigger cls \<noteq> Some status"
    by force
  with te have "status \<noteq> t"
    by simp
  with te show "check cls status = Inr ()"
    by (simp add: check_set)
qed

theorem unlisted_status_returns_normally_witness:
  "Some (example_pb2 ClientBatchSubmitResponse OK)
     \<notin> trigger ` set (rule_set example_pb2 ClientBatchSubmitResponse)
   \<and> rule_set example_pb2 ClientBatchSubmitResponse
       = [BatchInvalidTrap example_pb2, BatchQueueFullTrap example_pb2]
   \<and> check (BatchInvalidTrap example_pb2) (example_pb2 ClientBatchSubmitResponse OK) = Inr ()
   \<and> check (BatchQueueFullTrap example_pb2) (example_pb2 ClientBatchSubmitResponse OK) = Inr ()"
proof -
  have h: "Some (example_pb2 ClientBatchSubmitResponse OK)
             \<notin> trigger ` set (rule_set example_pb2 ClientBatchSubmitResponse)"
    by (simp add: rule_set_def BatchInvalidTrap_def BatchQueueFullTrap_def example_pb2_def)
  have rs: "rule_set example_pb2 ClientBatchSubmitResponse
              = [BatchInvalidTrap example_pb2, BatchQueueFullTrap example_pb2]"
    by (simp add: rule_set_def)
  show ?thesis
    using unlisted_status_returns_normally [OF h] h rs by simp
qed

subsection \<open>Calls in a state\<close>



text \<open>
  C8. A call of check has no effect but its outcome. Whatever the trap and the status,
  and so on the path that raises as on the path that returns, the state the body leaves
  is the state it found: the trigger and the error of the trap, those of every other
  class, and the status the caller holds are unchanged.
\<close>

theorem check_m_frame:
  "snd (check_m cls status \<sigma>) = \<sigma>
   \<and> (\<forall>c. trigger (classes (snd (check_m cls status \<sigma>)) c) = trigger (classes \<sigma> c)
          \<and> error (classes (snd (check_m cls status \<sigma>)) c) = error (classes \<sigma> c))
   \<and> response_status (snd (check_m cls status \<sigma>)) = response_status \<sigma>"
  by (simp add: check_m_def py_defs split: option.splits)

end
